theory Spec2Isabelle
  imports Main "HOL-Library.Sublist" "HOL-Library.Multiset"
begin

section \<open>JavaScript strings, numbers and values\<close>

text \<open>
  A JavaScript string is modelled by its UTF-8 bytes (\<open>string\<close> is \<open>char list\<close>); the
  strings the handlers see come from JSON bodies and from the document store, which hold
  well-formed text. A number is modelled by the integer it stands for.
\<close>

record js_runtime =
  unicode_toLowerCase :: "string \<Rightarrow> string"
  string_toNumber :: "string \<Rightarrow> int option"
  number_toString :: "int \<Rightarrow> string"
  decode_escapes :: "string \<Rightarrow> string option"

text \<open>
  Four built-in functions of the language are computed here on the inputs where their
  result is plain, and are taken from the runtime elsewhere:
  \<^item> \<open>unicode_toLowerCase\<close> is \<open>String.prototype.toLowerCase\<close> on a string that has a
    character outside ASCII;
  \<^item> \<open>string_toNumber\<close> is \<open>Number(s)\<close> on a string that is not a decimal integer literal
    of at most 15 digits (\<open>None\<close> is \<open>NaN\<close>);
  \<^item> \<open>number_toString\<close> is \<open>String(n)\<close> on an integer outside the safe range;
  \<^item> \<open>decode_escapes\<close> is \<open>decodeURIComponent\<close> on a string with an escape of a byte
    above 127 (\<open>None\<close> is a \<open>URIError\<close>).
  Nothing is assumed of the four functions.
\<close>

definition toLowerCase_char :: "char \<Rightarrow> char" where
  \<comment> \<open>The lower-case form of an ASCII character.\<close>
  "toLowerCase_char c =
     (case map_of (zip ''ABCDEFGHIJKLMNOPQRSTUVWXYZ'' ''abcdefghijklmnopqrstuvwxyz'') c of
        None \<Rightarrow> c
      | Some l \<Rightarrow> l)"

definition ascii_lower :: "string \<Rightarrow> string" where
  "ascii_lower s = map toLowerCase_char s"

definition is_ascii :: "string \<Rightarrow> bool" where
  "is_ascii s = list_all (\<lambda>c. (of_char c :: nat) < 128) s"

definition toLowerCase :: "js_runtime \<Rightarrow> string \<Rightarrow> string" where
  \<comment> \<open>\<open>String.prototype.toLowerCase\<close>: on ASCII text it folds the 26 capitals.\<close>
  "toLowerCase rt s = (if is_ascii s then ascii_lower s else unicode_toLowerCase rt s)"

fun join :: "string list \<Rightarrow> string \<Rightarrow> string" where
  \<comment> \<open>\<open>Array.prototype.join(sep)\<close> on an array of strings.\<close>
  "join [] sep = []"
| "join [x] sep = x"
| "join (x # y # ys) sep = x @ sep @ join (y # ys) sep"

definition hex_digit :: "nat \<Rightarrow> char" where
  "hex_digit n = ''0123456789ABCDEF'' ! n"

definition uri_unreserved :: "char \<Rightarrow> bool" where
  \<comment> \<open>The characters \<open>encodeURIComponent\<close> leaves alone: letters, digits and
     \<open>- _ . ! ~ * ' ( )\<close>.\<close>
  "uri_unreserved c =
     (c \<in> set ''ABCDEFGHIJKLMNOPQRSTUVWXYZabcdefghijklmnopqrstuvwxyz0123456789-_.!~*()''
      \<or> c = CHR 0x27)"

definition encodeURIComponent :: "string \<Rightarrow> string" where
  \<comment> \<open>Every other byte of the UTF-8 text becomes \<open>%XX\<close> with capital hex digits.\<close>
  "encodeURIComponent s =
     concat (map (\<lambda>c. if uri_unreserved c then [c]
                        else (let n = (of_char c :: nat)
                              in [CHR ''%'', hex_digit (n div 16), hex_digit (n mod 16)])) s)"

fun show_nat :: "nat \<Rightarrow> string" where
  "show_nat n = (if n < 10 then [''0123456789'' ! n]
                 else show_nat (n div 10) @ [''0123456789'' ! (n mod 10)])"

declare show_nat.simps [simp del]

definition show_int :: "int \<Rightarrow> string" where
  \<comment> \<open>The decimal digits of an integer, with its sign.\<close>
  "show_int i = (if i < 0 then CHR ''-'' # show_nat (nat (- i)) else show_nat (nat i))"

definition MAX_SAFE_INTEGER :: int where
  "MAX_SAFE_INTEGER = 9007199254740991"

definition number_text :: "js_runtime \<Rightarrow> int \<Rightarrow> string" where
  \<comment> \<open>What \<open>String(n)\<close> and a template literal print for a number: a safe integer is
     printed by its digits.\<close>
  "number_text rt n =
     (if - MAX_SAFE_INTEGER \<le> n \<and> n \<le> MAX_SAFE_INTEGER then show_int n
      else number_toString rt n)"

definition hex_value :: "char \<Rightarrow> nat option" where
  "hex_value c =
     map_of (zip ''0123456789abcdefABCDEF''
               [0, 1, 2, 3, 4, 5, 6, 7, 8, 9, 10, 11, 12, 13, 14, 15, 10, 11, 12, 13, 14, 15]) c"

definition digits_value :: "string \<Rightarrow> nat" where
  "digits_value ds = foldl (\<lambda>a c. 10 * a + the (hex_value c)) 0 ds"

definition Number_of_string :: "js_runtime \<Rightarrow> string \<Rightarrow> int option" where
  \<comment> \<open>\<open>Number(s)\<close> for a string; \<open>None\<close> is \<open>NaN\<close>. An optional minus sign and one to
     fifteen decimal digits give that integer.\<close>
  "Number_of_string rt s =
     (let neg = (s \<noteq> [] \<and> hd s = CHR ''-'');
          ds = (if neg then tl s else s)
      in if ds \<noteq> [] \<and> length ds \<le> 15 \<and> list_all (\<lambda>c. c \<in> set ''0123456789'') ds
         then Some (if neg then - int (digits_value ds) else int (digits_value ds))
         else string_toNumber rt s)"

fun high_escape :: "string \<Rightarrow> bool" where
  \<comment> \<open>Some \<open>%\<close> is followed by one of \<open>8\<close> to \<open>F\<close>: the escape of a byte above 127.\<close>
  "high_escape (c # h # cs) =
     ((c = CHR ''%'' \<and> h \<in> set ''89abcdefABCDEF'') \<or> high_escape (h # cs))"
| "high_escape cs = False"

fun pct_decode :: "string \<Rightarrow> string option" where
  \<comment> \<open>Escapes \<open>%00\<close> to \<open>%7F\<close> become their character; a \<open>%\<close> without two hex digits
     after it is a \<open>URIError\<close>.\<close>
  "pct_decode [] = Some []"
| "pct_decode [c] = (if c = CHR ''%'' then None else Some [c])"
| "pct_decode [c, h] = (if c = CHR ''%'' then None else map_option (Cons c) (pct_decode [h]))"
| "pct_decode (c # h # l # cs) =
     (if c = CHR ''%'' then
        (case (hex_value h, hex_value l) of
           (Some a, Some b) \<Rightarrow> map_option (Cons (char_of (16 * a + b))) (pct_decode cs)
         | _ \<Rightarrow> None)
      else map_option (Cons c) (pct_decode (h # l # cs)))"

definition decodeURIComponent :: "js_runtime \<Rightarrow> string \<Rightarrow> string option" where
  "decodeURIComponent rt s = (if high_escape s then decode_escapes rt s else pct_decode s)"

datatype js_value =
    JUndefined
  | JNull
  | JBool bool
  | JNum int
  | JStr string
  | JObject string

text \<open>
  A field of a JSON body as a handler reads it: \<open>JUndefined\<close> is a missing field,
  \<open>JObject t\<close> an array or an object, \<open>t\<close> being the text \<open>String(v)\<close> gives for it.
\<close>

definition truthy :: "js_value \<Rightarrow> bool" where
  "truthy v =
     (case v of
        JUndefined \<Rightarrow> False
      | JNull \<Rightarrow> False
      | JBool b \<Rightarrow> b
      | JNum n \<Rightarrow> n \<noteq> 0
      | JStr s \<Rightarrow> s \<noteq> []
      | JObject t \<Rightarrow> True)"

definition js_or :: "js_value \<Rightarrow> js_value \<Rightarrow> js_value" where
  \<comment> \<open>\<open>v || d\<close>\<close>
  "js_or v d = (if truthy v then v else d)"

definition js_to_string :: "js_runtime \<Rightarrow> js_value \<Rightarrow> string" where
  \<comment> \<open>\<open>${v}\<close>\<close>
  "js_to_string rt v =
     (case v of
        JUndefined \<Rightarrow> ''undefined''
      | JNull \<Rightarrow> ''null''
      | JBool b \<Rightarrow> (if b then ''true'' else ''false'')
      | JNum n \<Rightarrow> number_text rt n
      | JStr s \<Rightarrow> s
      | JObject t \<Rightarrow> t)"

definition or_default :: "string option \<Rightarrow> string \<Rightarrow> string" where
  \<comment> \<open>\<open>v || d\<close> for a string field \<open>v\<close>: absent, \<open>null\<close> and the empty string are falsy.\<close>
  "or_default v d = (case v of None \<Rightarrow> d | Some s \<Rightarrow> if s = [] then d else s)"

definition template_str :: "string option \<Rightarrow> string" where
  \<comment> \<open>\<open>${v}\<close> for a string that may be \<open>undefined\<close>.\<close>
  "template_str v = (case v of None \<Rightarrow> ''undefined'' | Some s \<Rightarrow> s)"

section \<open>Calls to the outside\<close>

text \<open>
  \<open>await\<close> on an upstream call either yields the body or throws (timeout, connection
  refused, status outside 2xx, or a body the following lines cannot read, whose
  \<open>TypeError\<close> lands in the same \<open>catch\<close>). The environment gives the outcome of each
  call a handler makes; the handler returns its response together with the calls it
  issued, in order.
\<close>

datatype 'a reply = Failed | Replied 'a

record ai_recommend_request =
  ai_url :: string
  ai_skills :: "string list"
  ai_userId :: string
  ai_timeout :: nat

record github_request =
  gh_url :: string
  gh_authorization :: "string option"

definition GITHUB_API_URL :: string where
  "GITHUB_API_URL = ''https://api.github.com''"

definition truthy_str :: "string option \<Rightarrow> bool" where
  "truthy_str v = (case v of None \<Rightarrow> False | Some s \<Rightarrow> s \<noteq> [])"

definition githubRequest :: "string option \<Rightarrow> string \<Rightarrow> string option \<Rightarrow> github_request" where
  \<comment> \<open>First argument: \<open>process.env.GITHUB_TOKEN\<close>. The fixed \<open>Accept\<close> and
     \<open>User-Agent\<close> headers are left out.\<close>
  "githubRequest env_token endpoint token =
     \<lparr> gh_url = GITHUB_API_URL @ endpoint,
       gh_authorization =
         (if truthy_str token then Some (''token '' @ the token)
          else if truthy_str env_token then Some (''token '' @ the env_token)
          else None) \<rparr>"

section \<open>Skills and users\<close>

record skill =
  sk_name :: string
  confidence :: int
  category :: string

record req_user =
  user_id :: string
  accessToken :: "string option"
  skills :: "skill list option"

section \<open>Array.prototype.sort\<close>

text \<open>
  \<open>xs.sort(cmp)\<close> is a stable sort: \<open>a\<close> stays before \<open>b\<close> unless \<open>cmp(a, b) > 0\<close>.
  It is modelled by stable insertion from the right.
\<close>

fun js_insert :: "('a \<Rightarrow> 'a \<Rightarrow> int) \<Rightarrow> 'a \<Rightarrow> 'a list \<Rightarrow> 'a list" where
  "js_insert cmp x [] = [x]"
| "js_insert cmp x (y # ys) = (if cmp x y \<le> 0 then x # y # ys else y # js_insert cmp x ys)"

definition js_sort :: "('a \<Rightarrow> 'a \<Rightarrow> int) \<Rightarrow> 'a list \<Rightarrow> 'a list" where
  "js_sort cmp xs = foldr (js_insert cmp) xs []"

definition by_confidence_desc :: "skill \<Rightarrow> skill \<Rightarrow> int" where
  \<comment> \<open>\<open>(a, b) => b.confidence - a.confidence\<close>\<close>
  "by_confidence_desc a b = confidence b - confidence a"

definition topSkills :: "skill list \<Rightarrow> string list" where
  \<comment> \<open>\<open>user.skills.sort(...).slice(0, 5).map((s) => s.name)\<close>\<close>
  "topSkills sk = map sk_name (take 5 (js_sort by_confidence_desc sk))"

section \<open>GET /api/repositories/recommendations\<close>

record owner =
  login :: string
  avatarUrl :: "string option"

record github_repo =
  repo_id :: int
  repo_name :: string
  full_name :: string
  repo_owner :: owner
  description :: "string option"
  stargazers_count :: int
  forks_count :: int
  language :: "string option"
  topics :: "string list option"
  updated_at :: string

record recommendation =
  rec_id :: int
  rec_name :: string
  fullName :: string
  rec_owner :: owner
  rec_description :: "string option"
  stars :: int
  forks :: int
  rec_language :: "string option"
  rec_topics :: "string list"
  updatedAt :: string
  matchScore :: int
  matchReason :: string
  goodFirstIssues :: int
  rec_difficulty :: string

record 'd response =
  status :: nat
  success :: bool
  message :: "string option"
  data :: "'d option"
  isTemplate :: "bool option"

text \<open>
  The fields of a JSON response that the handlers of this repository ever write. A field
  a handler does not write is \<open>None\<close>; \<open>data\<close> is also \<open>None\<close> when the handler
  writes \<open>undefined\<close>, which \<open>res.json\<close> drops.
\<close>

section \<open>Guide data\<close>

record repo_data =
  rd_fullName :: js_value
  rd_name :: js_value

record issue_data =
  title :: "string option"
  number :: "int option"
  difficulty :: "string option"
  labels :: "string list option"

text \<open>
  The fields of \<open>repoData\<close> and \<open>issueData\<close> that the handler reads. The two fields of
  \<open>repoData\<close> are printed as they are, so they are JSON values. Each field of
  \<open>issueData\<close> is read through \<open>||\<close> with a default, for which a missing field and
  \<open>null\<close> are alike: \<open>None\<close> is either; \<open>labels\<close> is the array of label names the
  page sends.
\<close>

record issue_analysis =
  ia_difficulty :: string
  estimatedTime :: string
  ia_labels :: "string list"

record guide_resource =
  res_title :: string
  res_url :: string

record guide =
  summary :: string
  gettingStarted :: "string list"
  issueAnalysis :: issue_analysis
  codeConventions :: "string list"
  tips :: "string list"
  resources :: "guide_resource list"

record guide_request =
  repoData :: "repo_data option"
  issueData :: "issue_data option"
  userContext_skills :: "skill list option"
  guide_user :: "req_user option"

record ai_guide_request =
  g_url :: string
  g_repository :: repo_data
  g_issue :: "issue_data option"
  g_userSkills :: "skill list"
  g_userId :: "string option"
  g_timeout :: nat

datatype net_call =
    AiRecommend ai_recommend_request
  | GitHubGet github_request
  | AiGenerateGuide ai_guide_request

section \<open>The environment of a request\<close>

record env =
  AI_SERVICE_URL :: "string option"
  GITHUB_TOKEN :: "string option"
  ai_recommend :: "recommendation list option reply"
  github_search :: "github_repo list reply"
  random_floor :: "nat \<Rightarrow> nat \<Rightarrow> nat"
  ai_generate_guide :: "guide option reply"

text \<open>
  \<open>ai_recommend\<close> is the outcome of the POST to the AI service's recommend operation,
  with the body's \<open>recommendations\<close> field when it resolves (taken to be of the shape of
  the data model's RecommendationResult; the handler passes it on untouched).
  \<open>github_search\<close> is the outcome of the repository search, with the body's \<open>items\<close>.
  \<open>random_floor k n\<close> stands for \<open>Math.floor(Math.random() * n)\<close> at the \<open>k\<close>-th call of
  \<open>Math.random\<close>. \<open>ai_generate_guide\<close> is the outcome of the POST to the guide
  operation, with the body's \<open>guide\<close> field.
\<close>

section \<open>GET /api/repositories/recommendations: the handler\<close>

definition fallback_repository ::
  "(nat \<Rightarrow> nat \<Rightarrow> nat) \<Rightarrow> string list \<Rightarrow> nat \<times> github_repo \<Rightarrow> recommendation" where
  \<comment> \<open>The callback of \<open>response.data.items.map((repo, index) => ...)\<close>.\<close>
  "fallback_repository rnd names = (\<lambda>(index, repo).
     \<lparr> rec_id = repo_id repo,
       rec_name = repo_name repo,
       fullName = full_name repo,
       rec_owner = repo_owner repo,
       rec_description = description repo,
       stars = stargazers_count repo,
       forks = forks_count repo,
       rec_language = language repo,
       rec_topics = (case topics repo of None \<Rightarrow> [] | Some ts \<Rightarrow> ts),
       updatedAt = updated_at repo,
       matchScore = 95 - int index * 5,
       matchReason = ''Matches your '' @ template_str (case names of [] \<Rightarrow> None | t # _ \<Rightarrow> Some t)
                       @ '' skills'',
       goodFirstIssues = int (rnd (2 * index) 20 mod 20) + 5,
       rec_difficulty = [''Easy'', ''Medium'', ''Hard''] ! (rnd (2 * index + 1) 3 mod 3) \<rparr>)"

definition recommendations ::
  "env \<Rightarrow> req_user \<Rightarrow> recommendation list response \<times> net_call list" where
  "recommendations e user =
     (if (case skills user of None \<Rightarrow> True | Some sk \<Rightarrow> sk = []) then
        (\<lparr> status = 400, success = False,
           message = Some ''No skills found. Please upload your resume first.'',
           data = None, isTemplate = None \<rparr>, [])
      else
        let names = topSkills (the (skills user));
            aiReq = \<lparr> ai_url = or_default (AI_SERVICE_URL e) ''http://localhost:8000''
                               @ ''/api/recommend'',
                      ai_skills = names, ai_userId = user_id user, ai_timeout = 120000 \<rparr>
        in case ai_recommend e of
             Replied recs \<Rightarrow>
               (\<lparr> status = 200, success = True, message = None, data = recs,
                  isTemplate = None \<rparr>, [AiRecommend aiReq])
           | Failed \<Rightarrow>
               let searchQuery = join names '' OR '' @ '' good-first-issues:>0'';
                   ghReq = githubRequest (GITHUB_TOKEN e)
                             (''/search/repositories?q='' @ encodeURIComponent searchQuery
                                @ ''&sort=stars&order=desc&per_page=10'')
                             (accessToken user)
               in case github_search e of
                    Replied items \<Rightarrow>
                      (\<lparr> status = 200, success = True, message = None,
                         data = Some (map (fallback_repository (random_floor e) names)
                                        (enumerate 0 items)),
                         isTemplate = None \<rparr>, [AiRecommend aiReq, GitHubGet ghReq])
                  | Failed \<Rightarrow>
                      (\<lparr> status = 500, success = False,
                         message = Some ''Failed to get recommendations'',
                         data = None, isTemplate = None \<rparr>,
                       [AiRecommend aiReq, GitHubGet ghReq]))"

section \<open>POST /api/guide/generate\<close>

definition backtick :: string where
  "backtick = [CHR 0x60]"

definition dquote :: string where
  "dquote = [CHR 0x22]"

definition issueNumber_text :: "js_runtime \<Rightarrow> issue_data option \<Rightarrow> string" where
  \<comment> \<open>\<open>issueData?.number || ''\<close> as a template literal prints it.\<close>
  "issueNumber_text rt issue =
     (case Option.bind issue number of
        None \<Rightarrow> []
      | Some n \<Rightarrow> if n = 0 then [] else number_text rt n)"

definition estimated_time :: "string \<Rightarrow> string" where
  "estimated_time d = (if d = ''easy'' then ''1-3 hours''
                       else if d = ''medium'' then ''3-8 hours''
                       else ''1-3 days'')"

definition templateGuide :: "js_runtime \<Rightarrow> repo_data \<Rightarrow> issue_data option \<Rightarrow> guide" where
  \<comment> \<open>The object built in the \<open>catch (aiError)\<close> branch.\<close>
  "templateGuide rt rd issue =
     (let issueTitle = or_default (Option.bind issue title) ''this issue'';
          issueNumber = issueNumber_text rt issue;
          difficulty' = or_default (Option.bind issue difficulty) ''medium'';
          labels' = (case Option.bind issue labels of None \<Rightarrow> [] | Some ls \<Rightarrow> ls)
      in \<lparr> summary =
             ''Issue #'' @ issueNumber @ '': '' @ dquote @ issueTitle @ dquote @ '' in ''
               @ js_to_string rt (rd_fullName rd) @ '' is ''
               @ (if ''good first issue'' \<in> set labels'
                  then ''a great starting point for first-time contributors''
                  else ''an opportunity to contribute to an active open-source project'')
               @ ''.'',
           gettingStarted =
             [ ''Fork the repository to your GitHub account'',
               ''Clone your fork: '' @ backtick @ ''git clone https://github.com/YOUR_USERNAME/''
                 @ js_to_string rt (rd_name rd) @ ''.git'' @ backtick,
               ''Navigate to the project directory: '' @ backtick @ ''cd ''
                 @ js_to_string rt (rd_name rd) @ backtick,
               ''Install dependencies (check README.md for specific instructions)'',
               ''Create a new branch: '' @ backtick @ ''git checkout -b fix/issue-''
                 @ issueNumber @ backtick,
               ''Read the issue description and comments thoroughly'',
               ''Make your changes addressing the issue requirements'',
               ''Test your changes locally'',
               ''Commit: '' @ backtick @ ''git commit -m '' @ dquote @ ''Fix #'' @ issueNumber
                 @ '': Brief description'' @ dquote @ backtick,
               ''Push and open a Pull Request referencing the issue'' ],
           issueAnalysis =
             \<lparr> ia_difficulty = difficulty',
               estimatedTime = estimated_time difficulty',
               ia_labels = labels' \<rparr>,
           codeConventions =
             [ ''Read the CONTRIBUTING.md file if available'',
               ''Follow the existing code style in the project'',
               ''Write tests for new features when applicable'',
               ''Keep commits atomic and well-documented'' ],
           tips =
             [ ''Comment on the issue to let maintainers know you'' @ [CHR 0x27]
                 @ ''re working on it'',
               ''Check if someone is already assigned or working on this issue'',
               ''Start with understanding the codebase structure'',
               ''Ask questions in issue comments if requirements are unclear'',
               ''Reference the issue number in your PR description'',
               ''Be patient with maintainers - they are often volunteers'' ],
           resources =
             [ \<lparr> res_title = ''View Issue on GitHub'',
                 res_url = ''https://github.com/'' @ js_to_string rt (rd_fullName rd)
                             @ ''/issues/'' @ issueNumber \<rparr>,
               \<lparr> res_title = ''Repository README'',
                 res_url = ''https://github.com/'' @ js_to_string rt (rd_fullName rd)
                             @ ''#readme'' \<rparr>,
               \<lparr> res_title = ''Pull Requests Guide'',
                 res_url = ''https://docs.github.com/en/pull-requests'' \<rparr> ] \<rparr>)"

definition userSkills :: "guide_request \<Rightarrow> skill list" where
  \<comment> \<open>\<open>req.user?.skills || userContext?.skills || []\<close>; an array is truthy even when
     empty.\<close>
  "userSkills req =
     (case Option.bind (guide_user req) skills of
        Some sk \<Rightarrow> sk
      | None \<Rightarrow> (case userContext_skills req of Some sk \<Rightarrow> sk | None \<Rightarrow> []))"

definition generate ::
  "js_runtime \<Rightarrow> env \<Rightarrow> guide_request \<Rightarrow> guide response \<times> net_call list" where
  \<comment> \<open>With typed inputs nothing in the handler throws outside the inner \<open>try\<close>, so the
     outer \<open>catch\<close> (status 500) has no branch here.\<close>
  "generate rt e req =
     (if (case repoData req of None \<Rightarrow> True | Some rd \<Rightarrow> \<not> truthy (rd_fullName rd)) then
        (\<lparr> status = 400, success = False, message = Some ''Repository data is required'',
           data = None, isTemplate = None \<rparr>, [])
      else
        let rd = the (repoData req);
            aiReq = \<lparr> g_url = or_default (AI_SERVICE_URL e) ''http://localhost:8000''
                              @ ''/api/generate-guide'',
                      g_repository = rd,
                      g_issue = issueData req,
                      g_userSkills = userSkills req,
                      g_userId = map_option user_id (guide_user req),
                      g_timeout = 60000 \<rparr>
        in case ai_generate_guide e of
             Replied g \<Rightarrow>
               (\<lparr> status = 200, success = True, message = None, data = g,
                  isTemplate = None \<rparr>, [AiGenerateGuide aiReq])
           | Failed \<Rightarrow>
               (\<lparr> status = 200, success = True, message = None,
                  data = Some (templateGuide rt rd (issueData req)),
                  isTemplate = Some True \<rparr>, [AiGenerateGuide aiReq]))"

section \<open>The skills router\<close>

record resume =
  filename :: string
  uploadedAt :: string

record user_doc =
  doc_skills :: "skill list"
  doc_resume :: "resume option"

text \<open>
  The part of the User document the skills routes read and write. Each handler loads the
  document, changes it in memory and calls \<open>user.save()\<close> once; \<open>save_ok\<close> says whether
  that write succeeds, and the handler returns its response with the document as stored
  afterwards.
\<close>

record skill_input =
  in_name :: js_value
  in_confidence :: js_value
  in_category :: js_value

text \<open>
  One element of the \<open>skills\<close> array of the request body, each field being whatever JSON
  value the caller sent.
\<close>

record new_skill =
  ns_name :: string
  ns_confidence :: js_value
  ns_category :: js_value

record skills_data =
  sd_skills :: "skill list"
  sd_added :: "new_skill list option"

definition name_of :: "skill_input \<Rightarrow> string" where
  \<comment> \<open>The name of an element whose name is a string.\<close>
  "name_of s = (case in_name s of JStr n \<Rightarrow> n | _ \<Rightarrow> [])"

definition newSkill :: "skill_input \<Rightarrow> new_skill" where
  \<comment> \<open>The callback of \<open>.map(skill => ({ name: skill.name,
     confidence: skill.confidence || 80, category: skill.category || 'Manual' }))\<close>.\<close>
  "newSkill s =
     \<lparr> ns_name = name_of s,
       ns_confidence = js_or (in_confidence s) (JNum 80),
       ns_category = js_or (in_category s) (JStr ''Manual'') \<rparr>"

datatype 'a cast = CastError | CastNull | Cast 'a

definition castNumber :: "js_runtime \<Rightarrow> js_value \<Rightarrow> int cast" where
  \<comment> \<open>What the schema does with a value assigned to a path declared \<open>Number\<close>
     (\<open>skills.confidence\<close> of the User model): a string or a boolean goes through
     \<open>Number\<close>, \<open>NaN\<close> is refused.\<close>
  "castNumber rt v =
     (case v of
        JUndefined \<Rightarrow> CastNull
      | JNull \<Rightarrow> CastNull
      | JBool b \<Rightarrow> Cast (if b then 1 else 0)
      | JNum n \<Rightarrow> Cast n
      | JStr s \<Rightarrow> (if s = [] then CastNull
                   else (case Number_of_string rt s of None \<Rightarrow> CastError | Some n \<Rightarrow> Cast n))
      | JObject t \<Rightarrow> CastError)"

definition castString :: "js_runtime \<Rightarrow> js_value \<Rightarrow> string cast" where
  \<comment> \<open>What the schema does with a value assigned to a path declared \<open>String\<close>
     (\<open>skills.name\<close>, \<open>skills.category\<close>): a scalar is printed, an array or a plain
     object is refused (an object with a string \<open>_id\<close> of its own, which would be
     stored as that string, is not among the values of \<open>JObject\<close>).\<close>
  "castString rt v =
     (case v of
        JUndefined \<Rightarrow> CastNull
      | JNull \<Rightarrow> CastNull
      | JBool b \<Rightarrow> Cast (if b then ''true'' else ''false'')
      | JNum n \<Rightarrow> Cast (number_text rt n)
      | JStr s \<Rightarrow> Cast s
      | JObject t \<Rightarrow> CastError)"

definition cast_skill :: "js_runtime \<Rightarrow> new_skill \<Rightarrow> skill option" where
  \<comment> \<open>The subdocument \<open>user.skills.push\<close> makes of a new skill; \<open>None\<close> when a cast
     fails, which makes \<open>user.save()\<close> reject. After the defaults of \<open>newSkill\<close> neither
     value is null.\<close>
  "cast_skill rt ns =
     (case (castNumber rt (ns_confidence ns), castString rt (ns_category ns)) of
        (Cast c, Cast g) \<Rightarrow> Some \<lparr> sk_name = ns_name ns, confidence = c, category = g \<rparr>
      | _ \<Rightarrow> None)"

definition addSkills ::
  "js_runtime \<Rightarrow> bool \<Rightarrow> user_doc \<Rightarrow> skill_input list option \<Rightarrow>
     skills_data response \<times> user_doc" where
  \<comment> \<open>POST /. The body's \<open>skills\<close> is \<open>None\<close> when it is missing or not an array. A batch
     element whose name is not a string makes \<open>skill.name.toLowerCase()\<close> throw in the
     filter, which the \<open>catch\<close> turns into 500, as it does a rejected save.\<close>
  "addSkills rt save_ok user body_skills =
     (if (case body_skills of None \<Rightarrow> True | Some batch \<Rightarrow> batch = []) then
        (\<lparr> status = 400, success = False, message = Some ''Please provide skills array'',
           data = None, isTemplate = None \<rparr>, user)
      else
        let batch = the body_skills;
            failed = (\<lparr> status = 500, success = False, message = Some ''Failed to add skills'',
                         data = None, isTemplate = None \<rparr>, user)
        in if list_ex (\<lambda>s. case in_name s of JStr n \<Rightarrow> False | _ \<Rightarrow> True) batch then failed
           else
             let existingSkillNames =
                   set (map (\<lambda>s. toLowerCase rt (sk_name s)) (doc_skills user));
                 newSkills = map newSkill
                               (filter (\<lambda>s. toLowerCase rt (name_of s) \<notin> existingSkillNames)
                                  batch);
                 pushed = map (cast_skill rt) newSkills;
                 skills' = doc_skills user @ map the pushed
             in if save_ok \<and> \<not> list_ex (\<lambda>p. p = None) pushed then
                  (\<lparr> status = 200, success = True,
                     message = Some (''Added '' @ show_nat (length newSkills) @ '' new skill(s)''),
                     data = Some \<lparr> sd_skills = skills', sd_added = Some newSkills \<rparr>,
                     isTemplate = None \<rparr>,
                   user\<lparr> doc_skills := skills' \<rparr>)
                else failed)"

definition deleteSkill ::
  "js_runtime \<Rightarrow> bool \<Rightarrow> user_doc \<Rightarrow> string \<Rightarrow> skills_data response \<times> user_doc" where
  \<comment> \<open>DELETE /:skillName\<close>
  "deleteSkill rt save_ok user skillName =
     (let initialLength = length (doc_skills user);
          remaining = filter (\<lambda>s. toLowerCase rt (sk_name s) \<noteq> toLowerCase rt skillName)
                        (doc_skills user)
      in if length remaining = initialLength then
           (\<lparr> status = 404, success = False, message = Some ''Skill not found'',
              data = None, isTemplate = None \<rparr>, user)
         else if save_ok then
           (\<lparr> status = 200, success = True, message = Some ''Skill deleted successfully'',
              data = Some \<lparr> sd_skills = remaining, sd_added = None \<rparr>, isTemplate = None \<rparr>,
            user\<lparr> doc_skills := remaining \<rparr>)
         else
           (\<lparr> status = 500, success = False, message = Some ''Failed to delete skill'',
              data = None, isTemplate = None \<rparr>, user))"

definition clearAll :: "bool \<Rightarrow> user_doc \<Rightarrow> skills_data response \<times> user_doc" where
  \<comment> \<open>The handler registered for DELETE /all.\<close>
  "clearAll save_ok user =
     (if save_ok then
        (\<lparr> status = 200, success = True, message = Some ''All skills cleared'',
           data = Some \<lparr> sd_skills = [], sd_added = None \<rparr>, isTemplate = None \<rparr>,
         user\<lparr> doc_skills := [], doc_resume := None \<rparr>)
      else
        (\<lparr> status = 500, success = False, message = Some ''Failed to clear skills'',
           data = None, isTemplate = None \<rparr>, user))"

subsection \<open>Route matching\<close>

text \<open>
  The Express router goes through its routes in the order they were registered. A route
  is tried on the path first: the pattern \<open>/\<close> followed by a literal matches that text
  without regard to the case of ASCII letters, \<open>/:name\<close> matches a slash and the
  longest non-empty run of characters other than a slash, and one slash may follow the
  whole pattern. The text a parameter matched is then decoded with
  \<open>decodeURIComponent\<close>; when that throws, no route runs and the application's error
  handler answers 400. A route whose path matches runs if it is registered for the
  request's method; the handlers here end the response and never call \<open>next\<close>, so no
  later route runs. Paths are relative to the router's mount point and start with a
  slash.
\<close>

datatype http_method = GET | POST | DELETE

datatype segment = Lit string | Param string

datatype skills_handler = GetSkills | AddSkills | DeleteSkill | ExtractResume | ClearAll

definition skills_routes :: "(http_method \<times> segment list \<times> skills_handler) list" where
  \<comment> \<open>The five routes of the file, in the order of their \<open>router.METHOD\<close> calls; the
     empty pattern is the path \<open>/\<close>.\<close>
  "skills_routes =
     [ (GET, [], GetSkills),
       (POST, [], AddSkills),
       (DELETE, [Param ''skillName''], DeleteSkill),
       (POST, [Lit ''extract-resume''], ExtractResume),
       (DELETE, [Lit ''all''], ClearAll) ]"

fun match_segments :: "segment list \<Rightarrow> string \<Rightarrow> ((string \<times> string) list \<times> string) option" where
  \<comment> \<open>The parameters a pattern binds at the start of a path, and the rest of the path.\<close>
  "match_segments [] p = Some ([], p)"
| "match_segments (Lit l # ps) p =
     (case p of
        [] \<Rightarrow> None
      | c # r \<Rightarrow>
          if c = CHR ''/'' \<and> length l \<le> length r
             \<and> ascii_lower (take (length l) r) = ascii_lower l
          then match_segments ps (drop (length l) r)
          else None)"
| "match_segments (Param n # ps) p =
     (case p of
        [] \<Rightarrow> None
      | c # r \<Rightarrow>
          if c = CHR ''/'' \<and> takeWhile (\<lambda>x. x \<noteq> CHR ''/'') r \<noteq> []
          then map_option (\<lambda>(params, rest). ((n, takeWhile (\<lambda>x. x \<noteq> CHR ''/'') r) # params, rest))
                 (match_segments ps (dropWhile (\<lambda>x. x \<noteq> CHR ''/'') r))
          else None)"

definition match_path :: "segment list \<Rightarrow> string \<Rightarrow> (string \<times> string) list option" where
  "match_path pat p =
     (case (if pat = [] then (case p of [] \<Rightarrow> None
                                      | c # r \<Rightarrow> if c = CHR ''/'' then Some ([], r) else None)
            else match_segments pat p) of
        None \<Rightarrow> None
      | Some (params, rest) \<Rightarrow> if rest = [] \<or> rest = ''/'' then Some params else None)"

fun decode_params :: "js_runtime \<Rightarrow> (string \<times> string) list \<Rightarrow> string + (string \<times> string) list" where
  \<comment> \<open>\<open>Inl w\<close>: the text \<open>w\<close> could not be decoded.\<close>
  "decode_params rt [] = Inr []"
| "decode_params rt ((n, w) # ps) =
     (case decodeURIComponent rt w of
        None \<Rightarrow> Inl w
      | Some v \<Rightarrow> (case decode_params rt ps of Inl e \<Rightarrow> Inl e | Inr qs \<Rightarrow> Inr ((n, v) # qs)))"

datatype 'h routed = NoRoute | DecodeFailed string | Route 'h "(string \<times> string) list"

fun dispatch ::
  "js_runtime \<Rightarrow> (http_method \<times> segment list \<times> 'h) list \<Rightarrow> http_method \<Rightarrow> string \<Rightarrow>
     'h routed" where
  "dispatch rt [] m p = NoRoute"
| "dispatch rt ((m', pat, h) # rs) m p =
     (case match_path pat p of
        None \<Rightarrow> dispatch rt rs m p
      | Some raw \<Rightarrow>
          (case decode_params rt raw of
             Inl w \<Rightarrow> DecodeFailed w
           | Inr params \<Rightarrow> if m' = m then Route h params else dispatch rt rs m p))"

definition skills_delete ::
  "js_runtime \<Rightarrow> bool \<Rightarrow> user_doc \<Rightarrow> string \<Rightarrow> skills_data response \<times> user_doc" where
  \<comment> \<open>A DELETE request of an authenticated user to the path \<open>p\<close> under /api/skills.
     Behind the router stand the application's error handler and its 404 handler.\<close>
  "skills_delete rt save_ok user p =
     (case dispatch rt skills_routes DELETE p of
        Route DeleteSkill params \<Rightarrow>
          deleteSkill rt save_ok user (template_str (map_of params ''skillName''))
      | Route ClearAll params \<Rightarrow> clearAll save_ok user
      | DecodeFailed w \<Rightarrow>
          (\<lparr> status = 400, success = False,
             message = Some (''Failed to decode param '' @ [CHR 0x27] @ w @ [CHR 0x27]),
             data = None, isTemplate = None \<rparr>, user)
      | _ \<Rightarrow>
          (\<lparr> status = 404, success = False, message = Some ''Route not found'',
             data = None, isTemplate = None \<rparr>, user))"

definition unique_names :: "js_runtime \<Rightarrow> skill list \<Rightarrow> bool" where
  \<comment> \<open>No two skills of the list have the same name up to case.\<close>
  "unique_names rt sk = distinct (map (\<lambda>s. toLowerCase rt (sk_name s)) sk)"

section \<open>Example data\<close>

definition mk_skill :: "string \<Rightarrow> int \<Rightarrow> skill" where
  "mk_skill n c = \<lparr> sk_name = n, confidence = c, category = ''Extracted'' \<rparr>"

definition user_python :: req_user where
  "user_python = \<lparr> user_id = ''u1'', accessToken = Some ''gho_abc'',
                   skills = Some [mk_skill ''Python'' 90] \<rparr>"

definition user_no_skills :: req_user where
  "user_no_skills = \<lparr> user_id = ''u2'', accessToken = None, skills = Some [] \<rparr>"

definition user_skills_absent :: req_user where
  "user_skills_absent = \<lparr> user_id = ''u4'', accessToken = None, skills = None \<rparr>"

definition seven_skills :: "skill list" where
  "seven_skills =
     [ mk_skill ''Go'' 80, mk_skill ''Python'' 90, mk_skill ''C++'' 80, mk_skill ''Rust'' 80,
       mk_skill ''SQL'' 70, mk_skill ''React'' 95, mk_skill ''Vue'' 80 ]"

definition user_seven :: req_user where
  "user_seven = \<lparr> user_id = ''u3'', accessToken = None, skills = Some seven_skills \<rparr>"

definition repo_of :: "int \<Rightarrow> string \<Rightarrow> int \<Rightarrow> github_repo" where
  "repo_of i n s =
     \<lparr> repo_id = i, repo_name = n, full_name = ''org/'' @ n,
       repo_owner = \<lparr> login = ''org'', avatarUrl = None \<rparr>, description = None,
       stargazers_count = s, forks_count = 0, language = None, topics = None,
       updated_at = ''2024-01-01T00:00:00Z'' \<rparr>"

definition env_down :: "github_repo list reply \<Rightarrow> env" where
  \<comment> \<open>The AI service is down; the GitHub search has the given outcome.\<close>
  "env_down gh =
     \<lparr> AI_SERVICE_URL = None, GITHUB_TOKEN = None, ai_recommend = Failed,
       github_search = gh, random_floor = (\<lambda>k n. 0), ai_generate_guide = Failed \<rparr>"

definition env_ai :: "recommendation list option \<Rightarrow> guide option \<Rightarrow> env" where
  \<comment> \<open>The AI service answers both operations; GitHub is not reachable.\<close>
  "env_ai recs g =
     \<lparr> AI_SERVICE_URL = Some ''http://ai:8000'', GITHUB_TOKEN = None,
       ai_recommend = Replied recs, github_search = Failed, random_floor = (\<lambda>k n. 0),
       ai_generate_guide = Replied g \<rparr>"

definition plain_runtime :: js_runtime where
  \<comment> \<open>A runtime for the examples, none of which reaches it.\<close>
  "plain_runtime =
     \<lparr> unicode_toLowerCase = (\<lambda>s. s), string_toNumber = (\<lambda>s. None),
       number_toString = (\<lambda>n. []), decode_escapes = (\<lambda>s. None) \<rparr>"

definition react_repo :: repo_data where
  "react_repo = \<lparr> rd_fullName = JStr ''facebook/react'', rd_name = JStr ''react'' \<rparr>"

definition issue_42 :: issue_data where
  "issue_42 = \<lparr> title = Some ''Fix bug'', number = Some 42, difficulty = Some ''easy'',
                labels = None \<rparr>"

definition guide_req :: "skill list option \<Rightarrow> req_user option \<Rightarrow> guide_request" where
  "guide_req ctx u = \<lparr> repoData = Some react_repo, issueData = Some issue_42,
                       userContext_skills = ctx, guide_user = u \<rparr>"

definition doc_python :: user_doc where
  "doc_python = \<lparr> doc_skills = [mk_skill ''Python'' 90],
                  doc_resume = Some \<lparr> filename = ''cv.pdf'', uploadedAt = ''2024-01-01'' \<rparr> \<rparr>"

definition doc_with_all :: user_doc where
  "doc_with_all = \<lparr> doc_skills = [mk_skill ''Python'' 90, mk_skill ''All'' 70],
                    doc_resume = Some \<lparr> filename = ''cv.pdf'', uploadedAt = ''2024-01-01'' \<rparr> \<rparr>"

definition doc_empty :: user_doc where
  "doc_empty = \<lparr> doc_skills = [], doc_resume = None \<rparr>"

definition named :: "string \<Rightarrow> skill_input" where
  "named n = \<lparr> in_name = JStr n, in_confidence = JUndefined, in_category = JUndefined \<rparr>"

definition zero_go :: skill_input where
  "zero_go = \<lparr> in_name = JStr ''Go'', in_confidence = JNum 0, in_category = JStr [] \<rparr>"

definition zero_string_go :: skill_input where
  \<comment> \<open>\<open>{"name": "Go", "confidence": "0"}\<close>\<close>
  "zero_string_go =
     \<lparr> in_name = JStr ''Go'', in_confidence = JStr ''0'', in_category = JUndefined \<rparr>"

section \<open>Recommendations: an empty skill list\<close>

text \<open>
  C2: when the user's skill list is empty or absent, the recommendation handler answers
  400 and has issued no call to the AI service or to GitHub.
\<close>

theorem recommendations_no_skills:
  assumes "skills user = None \<or> skills user = Some []"
  shows "status (fst (recommendations e user)) = 400 \<and>
         success (fst (recommendations e user)) = False \<and>
         snd (recommendations e user) = []"
  using assms by (auto simp: recommendations_def)

theorem recommendations_no_skills_witness:
  "skills user_no_skills = Some [] \<and>
   status (fst (recommendations (env_down Failed) user_no_skills)) = 400 \<and>
   success (fst (recommendations (env_down Failed) user_no_skills)) = False \<and>
   snd (recommendations (env_down Failed) user_no_skills) = [] \<and>
   skills user_skills_absent = None \<and>
   status (fst (recommendations (env_ai (Some []) None) user_skills_absent)) = 400 \<and>
   snd (recommendations (env_ai (Some []) None) user_skills_absent) = []"
  using recommendations_no_skills [of user_no_skills "env_down Failed"]
        recommendations_no_skills [of user_skills_absent "env_ai (Some []) None"]
  by (simp add: user_no_skills_def user_skills_absent_def)

section \<open>The stable sort\<close>

lemma mset_js_insert: "mset (js_insert cmp x ys) = add_mset x (mset ys)"
  by (induction ys) auto

lemma mset_js_sort: "mset (js_sort cmp xs) = mset xs"
  by (induction xs) (auto simp: js_sort_def mset_js_insert)

lemma length_js_sort: "length (js_sort cmp xs) = length xs"
  using mset_js_sort [of cmp xs] by (metis size_mset)






lemma topSkills_nonempty: "sk \<noteq> [] \<Longrightarrow> topSkills sk \<noteq> []"
  by (cases sk) (auto simp: topSkills_def take_eq_Nil length_js_sort simp flip: length_0_conv)

section \<open>Recommendations: the query basis\<close>

lemma topSkills_seven: "topSkills seven_skills = [''React'', ''Python'', ''Go'', ''C++'', ''Rust'']"
  by (simp add: topSkills_def seven_skills_def mk_skill_def js_sort_def by_confidence_desc_def)

lemma fallback_nth:
  "i < length items \<Longrightarrow>
   map (fallback_repository rnd names) (enumerate 0 items) ! i =
   fallback_repository rnd names (i, items ! i)"
  by (simp add: nth_enumerate_eq)




section \<open>Recommendations: success and failure\<close>

text \<open>
  C1, as the specification states it, asks for a non-empty result whenever one of the two
  paths succeeds. The handler passes on whatever list the path produced: with the AI
  service answering an empty list of recommendations, a user with one skill gets a
  successful response whose list is empty.
\<close>

theorem recommendations_empty_counterexample:
  "skills user_python = Some [mk_skill ''Python'' 90] \<and>
   ai_recommend (env_ai (Some []) None) = Replied (Some []) \<and>
   status (fst (recommendations (env_ai (Some []) None) user_python)) = 200 \<and>
   success (fst (recommendations (env_ai (Some []) None) user_python)) \<and>
   data (fst (recommendations (env_ai (Some []) None) user_python)) = Some []"
  by (simp add: recommendations_def user_python_def env_ai_def)

text \<open>
  C1, amended: for a user with a non-empty skill list, the handler answers success with
  the AI service's list as it came when the AI call succeeds, and success with one entry
  per item of the GitHub search when the AI call fails and the search succeeds (either
  list may be empty); it answers 500, without success, exactly when both the AI call
  and the GitHub search fail.
\<close>

theorem recommendations_outcome:
  assumes "skills user = Some sk" and "sk \<noteq> []"
  shows "(\<forall>recs. ai_recommend e = Replied recs \<longrightarrow>
            status (fst (recommendations e user)) = 200 \<and>
            success (fst (recommendations e user)) \<and>
            data (fst (recommendations e user)) = recs) \<and>
         (\<forall>items. ai_recommend e = Failed \<and> github_search e = Replied items \<longrightarrow>
            status (fst (recommendations e user)) = 200 \<and>
            success (fst (recommendations e user)) \<and>
            (\<exists>rs. data (fst (recommendations e user)) = Some rs \<and> length rs = length items)) \<and>
         (status (fst (recommendations e user)) = 500 \<longleftrightarrow>
            ai_recommend e = Failed \<and> github_search e = Failed) \<and>
         (status (fst (recommendations e user)) = 500 \<longrightarrow>
            \<not> success (fst (recommendations e user)))"
  using assms
  by (cases "ai_recommend e"; cases "github_search e") (simp_all add: recommendations_def Let_def)

theorem recommendations_outcome_witness:
  "skills user_python = Some [mk_skill ''Python'' 90] \<and> [mk_skill ''Python'' 90] \<noteq> [] \<and>
   data (fst (recommendations (env_ai (Some []) None) user_python)) = Some [] \<and>
   (\<exists>rs. data (fst (recommendations (env_down (Replied [repo_of 1 ''flask'' 5])) user_python))
           = Some rs \<and> length rs = 1) \<and>
   status (fst (recommendations (env_down Failed) user_python)) = 500"
  using recommendations_outcome [of user_python "[mk_skill ''Python'' 90]" "env_ai (Some []) None"]
        recommendations_outcome [of user_python "[mk_skill ''Python'' 90]"
                                    "env_down (Replied [repo_of 1 ''flask'' 5])"]
        recommendations_outcome [of user_python "[mk_skill ''Python'' 90]" "env_down Failed"]
  by (simp add: user_python_def env_ai_def env_down_def)

section \<open>Recommendations: the fallback search\<close>

text \<open>
  C4: when the AI call fails for a user with a non-empty skill list, the handler's next
  call is a GET to GitHub's repository search whose \<open>q\<close> parameter is the URI-encoded
  text of the top skill names joined by \<open>OR\<close> followed by \<open>good-first-issues:>0\<close>, with
  \<open>sort=stars\<close>, \<open>order=desc\<close> and \<open>per_page=10\<close>. When the search answers, the response
  has one entry per item, in the items' order; the entry at index \<open>i\<close> has
  \<open>matchScore = 95 - 5 * i\<close>, so the scores never increase along the list, and its
  \<open>matchReason\<close> is \<open>Matches your t skills\<close> for the first of the top skill names \<open>t\<close>.
\<close>

theorem fallback_search:
  assumes "skills user = Some sk" and "sk \<noteq> []" and "ai_recommend e = Failed"
  shows "topSkills sk \<noteq> [] \<and>
         (\<exists>aiReq auth. snd (recommendations e user) =
            [AiRecommend aiReq,
             GitHubGet \<lparr> gh_url = ''https://api.github.com/search/repositories?q=''
                           @ encodeURIComponent
                               (join (topSkills sk) '' OR '' @ '' good-first-issues:>0'')
                           @ ''&sort=stars&order=desc&per_page=10'',
                         gh_authorization = auth \<rparr>]) \<and>
         (\<forall>items. github_search e = Replied items \<longrightarrow>
            (\<exists>rs. data (fst (recommendations e user)) = Some rs \<and>
                  length rs = length items \<and>
                  (\<forall>i < length items.
                      matchScore (rs ! i) = 95 - 5 * int i \<and>
                      matchReason (rs ! i) = ''Matches your '' @ hd (topSkills sk) @ '' skills'' \<and>
                      sublist (hd (topSkills sk)) (matchReason (rs ! i)) \<and>
                      fullName (rs ! i) = full_name (items ! i) \<and>
                      stars (rs ! i) = stargazers_count (items ! i)) \<and>
                  (\<forall>i. Suc i < length items \<longrightarrow>
                      matchScore (rs ! Suc i) \<le> matchScore (rs ! i))))"
proof -
  from assms(2) have ne: "topSkills sk \<noteq> []" by (rule topSkills_nonempty)
  then obtain t ts where top: "topSkills sk = t # ts" by (cases "topSkills sk") auto
  have calls: "\<exists>aiReq auth. snd (recommendations e user) =
            [AiRecommend aiReq,
             GitHubGet \<lparr> gh_url = ''https://api.github.com/search/repositories?q=''
                           @ encodeURIComponent
                               (join (topSkills sk) '' OR '' @ '' good-first-issues:>0'')
                           @ ''&sort=stars&order=desc&per_page=10'',
                         gh_authorization = auth \<rparr>]"
    using assms
    by (cases "github_search e")
       (simp_all add: recommendations_def Let_def githubRequest_def GITHUB_API_URL_def)
  have res: "\<exists>rs. data (fst (recommendations e user)) = Some rs \<and>
                  length rs = length items \<and>
                  (\<forall>i < length items.
                      matchScore (rs ! i) = 95 - 5 * int i \<and>
                      matchReason (rs ! i) = ''Matches your '' @ hd (topSkills sk) @ '' skills'' \<and>
                      sublist (hd (topSkills sk)) (matchReason (rs ! i)) \<and>
                      fullName (rs ! i) = full_name (items ! i) \<and>
                      stars (rs ! i) = stargazers_count (items ! i)) \<and>
                  (\<forall>i. Suc i < length items \<longrightarrow>
                      matchScore (rs ! Suc i) \<le> matchScore (rs ! i))"
    if gh: "github_search e = Replied items" for items
  proof -
    let ?rs = "map (fallback_repository (random_floor e) (topSkills sk)) (enumerate 0 items)"
    have d: "data (fst (recommendations e user)) = Some ?rs"
      using assms gh by (simp add: recommendations_def Let_def)
    have nth: "?rs ! i = fallback_repository (random_floor e) (topSkills sk) (i, items ! i)"
      if "i < length items" for i
      using that by (rule fallback_nth)
    have sub: "sublist t (''Matches your '' @ t @ '' skills'')"
      by (rule sublist_appendI)
    have each: "matchScore (?rs ! i) = 95 - 5 * int i \<and>
                matchReason (?rs ! i) = ''Matches your '' @ hd (topSkills sk) @ '' skills'' \<and>
                sublist (hd (topSkills sk)) (matchReason (?rs ! i)) \<and>
                fullName (?rs ! i) = full_name (items ! i) \<and>
                stars (?rs ! i) = stargazers_count (items ! i)"
      if "i < length items" for i
      unfolding nth [OF that]
      using sub by (simp add: fallback_repository_def top template_str_def)
    have mono: "matchScore (?rs ! Suc i) \<le> matchScore (?rs ! i)" if "Suc i < length items" for i
    proof -
      from that have "i < length items" by simp
      then show ?thesis
        unfolding nth [OF that] nth [OF \<open>i < length items\<close>]
        by (simp add: fallback_repository_def)
    qed
    have len: "length ?rs = length items" by simp
    from d len each mono show ?thesis by blast
  qed
  from ne calls res show ?thesis by blast
qed

theorem fallback_search_witness:
  "skills user_seven = Some seven_skills \<and> seven_skills \<noteq> [] \<and>
   ai_recommend (env_down (Replied [repo_of 1 ''a'' 30, repo_of 2 ''b'' 20])) = Failed \<and>
   topSkills seven_skills = [''React'', ''Python'', ''Go'', ''C++'', ''Rust''] \<and>
   map (\<lambda>c. case c of GitHubGet r \<Rightarrow> gh_url r | _ \<Rightarrow> [])
     (snd (recommendations (env_down (Replied [repo_of 1 ''a'' 30, repo_of 2 ''b'' 20])) user_seven)) =
     [[], ''https://api.github.com/search/repositories?q=React%20OR%20Python%20OR%20Go%20OR%20C%2B%2B%20OR%20Rust%20good-first-issues%3A%3E0&sort=stars&order=desc&per_page=10''] \<and>
   map_option (map (\<lambda>r. (matchScore r, matchReason r)))
     (data (fst (recommendations (env_down (Replied [repo_of 1 ''a'' 30, repo_of 2 ''b'' 20])) user_seven))) =
     Some [(95, ''Matches your React skills''), (90, ''Matches your React skills'')]"
proof -
  have ne: "seven_skills \<noteq> []" by (simp add: seven_skills_def)
  show ?thesis
    using ne fallback_search [of user_seven seven_skills
                                "env_down (Replied [repo_of 1 ''a'' 30, repo_of 2 ''b'' 20])"]
    by (simp add: topSkills_seven user_seven_def env_down_def recommendations_def Let_def
          githubRequest_def GITHUB_API_URL_def encodeURIComponent_def uri_unreserved_def
          hex_digit_def truthy_str_def fallback_repository_def enumerate_eq_zip
          template_str_def repo_of_def)
qed

section \<open>Telling the AI's answer from the fallback\<close>

text \<open>
  C5, as the specification states it, asks for a flag in every successful recommendation
  response. The recommendation handler writes \<open>success\<close> and \<open>data\<close> only, on both of
  its paths: when the AI service answers an empty list, and when the AI service is down
  and the GitHub search finds nothing, the two responses are the same value.
\<close>

theorem recommendations_flag_counterexample:
  "ai_recommend (env_ai (Some []) None) = Replied (Some []) \<and>
   ai_recommend (env_down (Replied [])) = Failed \<and>
   github_search (env_down (Replied [])) = Replied [] \<and>
   success (fst (recommendations (env_ai (Some []) None) user_python)) \<and>
   fst (recommendations (env_ai (Some []) None) user_python) =
   fst (recommendations (env_down (Replied [])) user_python)"
  by (simp add: recommendations_def user_python_def env_ai_def env_down_def Let_def enumerate_eq_zip)

text \<open>
  C5, amended: every successful guide response built from the template carries
  \<open>isTemplate = true\<close>, and every successful guide response that passes on the AI
  service's guide carries no \<open>isTemplate\<close> field, so a caller can tell the two apart;
  a recommendation response carries no such field on any path.
\<close>

theorem guide_isTemplate_flag:
  "(status (fst (generate rt e req)) = 200 \<longrightarrow>
      (ai_generate_guide e = Failed \<longrightarrow> isTemplate (fst (generate rt e req)) = Some True) \<and>
      (ai_generate_guide e \<noteq> Failed \<longrightarrow> isTemplate (fst (generate rt e req)) = None)) \<and>
   isTemplate (fst (recommendations e user)) = None"
  by (cases "ai_generate_guide e"; cases "ai_recommend e"; cases "github_search e")
     (simp_all add: generate_def recommendations_def Let_def)

theorem guide_isTemplate_flag_witness:
  "status (fst (generate plain_runtime (env_down Failed) (guide_req None None))) = 200 \<and>
   ai_generate_guide (env_down Failed) = Failed \<and>
   isTemplate (fst (generate plain_runtime (env_down Failed) (guide_req None None))) = Some True \<and>
   status (fst (generate plain_runtime (env_ai None None) (guide_req None None))) = 200 \<and>
   ai_generate_guide (env_ai None None) \<noteq> Failed \<and>
   isTemplate (fst (generate plain_runtime (env_ai None None) (guide_req None None))) = None \<and>
   isTemplate (fst (recommendations (env_down Failed) user_python)) = None"
  using guide_isTemplate_flag
          [of plain_runtime "env_down Failed" "guide_req None None" user_python]
        guide_isTemplate_flag
          [of plain_runtime "env_ai None None" "guide_req None None" user_python]
  by (simp add: generate_def env_down_def env_ai_def guide_req_def react_repo_def truthy_def
        Let_def)

section \<open>The template guide\<close>

text \<open>
  C8: on the template path the response is a function of \<open>repoData\<close> and \<open>issueData\<close>
  alone. Two requests that agree on these two fields, each handled while the AI service
  fails, get equal responses, whatever the rest of the requests (user, user context) and
  of the environments (service URL, random source, GitHub) may be.
\<close>

theorem template_guide_deterministic:
  assumes "repoData r1 = repoData r2" and "issueData r1 = issueData r2"
    and "ai_generate_guide e1 = Failed" and "ai_generate_guide e2 = Failed"
  shows "fst (generate rt e1 r1) = fst (generate rt e2 r2)"
  using assms by (simp add: generate_def Let_def)

theorem template_guide_deterministic_witness:
  "repoData (guide_req None None) = repoData (guide_req (Some seven_skills) (Some user_python)) \<and>
   issueData (guide_req None None) = issueData (guide_req (Some seven_skills) (Some user_python)) \<and>
   ai_generate_guide (env_down Failed) = Failed \<and>
   ai_generate_guide ((env_down (Replied []))\<lparr> AI_SERVICE_URL := Some ''http://ai:8000'',
                                              random_floor := (\<lambda>k n. k) \<rparr>) = Failed \<and>
   guide_req None None \<noteq> guide_req (Some seven_skills) (Some user_python) \<and>
   isTemplate (fst (generate plain_runtime (env_down Failed) (guide_req None None))) = Some True \<and>
   fst (generate plain_runtime (env_down Failed) (guide_req None None)) =
   fst (generate plain_runtime
          ((env_down (Replied []))\<lparr> AI_SERVICE_URL := Some ''http://ai:8000'',
                                     random_floor := (\<lambda>k n. k) \<rparr>)
          (guide_req (Some seven_skills) (Some user_python)))"
  using template_guide_deterministic
          [of "guide_req None None" "guide_req (Some seven_skills) (Some user_python)"
              "env_down Failed"
              "(env_down (Replied []))\<lparr> AI_SERVICE_URL := Some ''http://ai:8000'',
                                        random_floor := (\<lambda>k n. k) \<rparr>"
              plain_runtime]
  by (simp add: guide_req_def env_down_def generate_def react_repo_def truthy_def Let_def)

lemma issueNumber_42: "issueNumber_text rt (Some issue_42) = ''42''"
  by (simp add: issueNumber_text_def issue_42_def number_text_def MAX_SAFE_INTEGER_def
        show_int_def show_nat.simps)

text \<open>
  C9: with the AI service down, repository \<open>{fullName: "facebook/react", name: "react"}\<close>
  and issue \<open>{number: 42, title: "Fix bug", difficulty: "easy"}\<close>, the guide is the
  template guide. Its \<open>gettingStarted\<close> is the list of ten steps written out below, with
  \<open>react\<close> in the clone and \<open>cd\<close> steps and \<open>42\<close> in the branch and commit steps; the
  fifth step reads \<open>Create a new branch: `git checkout -b fix/issue-42`\<close> and so contains
  \<open>issue-42\<close>; \<open>issueAnalysis.difficulty\<close> is \<open>easy\<close> and \<open>issueAnalysis.estimatedTime\<close>
  is \<open>1-3 hours\<close>. For every repository and issue the list is the same ten steps with
  the printed repository name and the printed issue number in those places; the
  difficulty is the issue's own when it has one and \<open>medium\<close> when the difficulty or the
  issue is absent, and the estimated time follows the difficulty.
\<close>

theorem template_guide_issue_42:
  "data (fst (generate rt (env_down Failed) (guide_req None None))) =
     Some (templateGuide rt react_repo (Some issue_42)) \<and>
   gettingStarted (templateGuide rt react_repo (Some issue_42)) =
     [ ''Fork the repository to your GitHub account'',
       ''Clone your fork: '' @ backtick
         @ ''git clone https://github.com/YOUR_USERNAME/react.git'' @ backtick,
       ''Navigate to the project directory: '' @ backtick @ ''cd react'' @ backtick,
       ''Install dependencies (check README.md for specific instructions)'',
       ''Create a new branch: '' @ backtick @ ''git checkout -b fix/issue-42'' @ backtick,
       ''Read the issue description and comments thoroughly'',
       ''Make your changes addressing the issue requirements'',
       ''Test your changes locally'',
       ''Commit: '' @ backtick @ ''git commit -m '' @ dquote @ ''Fix #42: Brief description''
         @ dquote @ backtick,
       ''Push and open a Pull Request referencing the issue'' ] \<and>
   length (gettingStarted (templateGuide rt react_repo (Some issue_42))) = 10 \<and>
   gettingStarted (templateGuide rt react_repo (Some issue_42)) ! 4 =
     ''Create a new branch: '' @ backtick @ ''git checkout -b fix/issue-42'' @ backtick \<and>
   sublist ''issue-42'' (gettingStarted (templateGuide rt react_repo (Some issue_42)) ! 4) \<and>
   ia_difficulty (issueAnalysis (templateGuide rt react_repo (Some issue_42))) = ''easy'' \<and>
   estimatedTime (issueAnalysis (templateGuide rt react_repo (Some issue_42))) = ''1-3 hours'' \<and>
   gettingStarted (templateGuide rt rd issue) =
     [ ''Fork the repository to your GitHub account'',
       ''Clone your fork: '' @ backtick @ ''git clone https://github.com/YOUR_USERNAME/''
         @ js_to_string rt (rd_name rd) @ ''.git'' @ backtick,
       ''Navigate to the project directory: '' @ backtick @ ''cd ''
         @ js_to_string rt (rd_name rd) @ backtick,
       ''Install dependencies (check README.md for specific instructions)'',
       ''Create a new branch: '' @ backtick @ ''git checkout -b fix/issue-''
         @ issueNumber_text rt issue @ backtick,
       ''Read the issue description and comments thoroughly'',
       ''Make your changes addressing the issue requirements'',
       ''Test your changes locally'',
       ''Commit: '' @ backtick @ ''git commit -m '' @ dquote @ ''Fix #''
         @ issueNumber_text rt issue @ '': Brief description'' @ dquote @ backtick,
       ''Push and open a Pull Request referencing the issue'' ] \<and>
   length (gettingStarted (templateGuide rt rd issue)) = 10 \<and>
   js_to_string rt (JStr n) = n \<and>
   issueNumber_text rt (Some (i\<lparr> number := Some 42 \<rparr>)) = ''42'' \<and>
   ia_difficulty (issueAnalysis (templateGuide rt rd issue)) =
     or_default (Option.bind issue difficulty) ''medium'' \<and>
   estimatedTime (issueAnalysis (templateGuide rt rd issue)) =
     estimated_time (ia_difficulty (issueAnalysis (templateGuide rt rd issue))) \<and>
   estimated_time ''easy'' = ''1-3 hours'' \<and>
   estimated_time ''medium'' = ''3-8 hours'' \<and>
   estimated_time ''hard'' = ''1-3 days'' \<and>
   ia_difficulty (issueAnalysis (templateGuide rt rd (Some (i\<lparr> difficulty := Some ''hard'' \<rparr>))))
     = ''hard'' \<and>
   ia_difficulty (issueAnalysis (templateGuide rt rd (Some (i\<lparr> difficulty := None \<rparr>))))
     = ''medium'' \<and>
   ia_difficulty (issueAnalysis (templateGuide rt rd None)) = ''medium''"
proof -
  have general: "gettingStarted (templateGuide rt rd issue) =
     [ ''Fork the repository to your GitHub account'',
       ''Clone your fork: '' @ backtick @ ''git clone https://github.com/YOUR_USERNAME/''
         @ js_to_string rt (rd_name rd) @ ''.git'' @ backtick,
       ''Navigate to the project directory: '' @ backtick @ ''cd ''
         @ js_to_string rt (rd_name rd) @ backtick,
       ''Install dependencies (check README.md for specific instructions)'',
       ''Create a new branch: '' @ backtick @ ''git checkout -b fix/issue-''
         @ issueNumber_text rt issue @ backtick,
       ''Read the issue description and comments thoroughly'',
       ''Make your changes addressing the issue requirements'',
       ''Test your changes locally'',
       ''Commit: '' @ backtick @ ''git commit -m '' @ dquote @ ''Fix #''
         @ issueNumber_text rt issue @ '': Brief description'' @ dquote @ backtick,
       ''Push and open a Pull Request referencing the issue'' ]"
    for rd issue
    by (simp add: templateGuide_def Let_def)
  have scenario: "gettingStarted (templateGuide rt react_repo (Some issue_42)) =
     [ ''Fork the repository to your GitHub account'',
       ''Clone your fork: '' @ backtick
         @ ''git clone https://github.com/YOUR_USERNAME/react.git'' @ backtick,
       ''Navigate to the project directory: '' @ backtick @ ''cd react'' @ backtick,
       ''Install dependencies (check README.md for specific instructions)'',
       ''Create a new branch: '' @ backtick @ ''git checkout -b fix/issue-42'' @ backtick,
       ''Read the issue description and comments thoroughly'',
       ''Make your changes addressing the issue requirements'',
       ''Test your changes locally'',
       ''Commit: '' @ backtick @ ''git commit -m '' @ dquote @ ''Fix #42: Brief description''
         @ dquote @ backtick,
       ''Push and open a Pull Request referencing the issue'' ]"
    unfolding general issueNumber_42
    by (simp add: react_repo_def js_to_string_def)
  have step: "gettingStarted (templateGuide rt react_repo (Some issue_42)) ! 4 =
     ''Create a new branch: '' @ backtick @ ''git checkout -b fix/issue-42'' @ backtick"
    unfolding scenario by simp
  have split: "''Create a new branch: '' @ backtick @ ''git checkout -b fix/issue-42'' @ backtick =
     (''Create a new branch: '' @ backtick @ ''git checkout -b fix/'') @ ''issue-42'' @ backtick"
    by simp
  have sub: "sublist ''issue-42''
               (gettingStarted (templateGuide rt react_repo (Some issue_42)) ! 4)"
    unfolding step split by (rule sublist_appendI)
  have gen: "data (fst (generate rt (env_down Failed) (guide_req None None))) =
     Some (templateGuide rt react_repo (Some issue_42))"
    by (simp add: generate_def env_down_def guide_req_def react_repo_def truthy_def Let_def)
  have analysis:
    "ia_difficulty (issueAnalysis (templateGuide rt react_repo (Some issue_42))) = ''easy'' \<and>
     estimatedTime (issueAnalysis (templateGuide rt react_repo (Some issue_42))) = ''1-3 hours''"
    by (simp add: templateGuide_def issue_42_def or_default_def estimated_time_def Let_def)
  have difficulty_general:
    "ia_difficulty (issueAnalysis (templateGuide rt rd issue)) =
       or_default (Option.bind issue difficulty) ''medium'' \<and>
     estimatedTime (issueAnalysis (templateGuide rt rd issue)) =
       estimated_time (ia_difficulty (issueAnalysis (templateGuide rt rd issue)))"
    by (simp add: templateGuide_def Let_def)
  have times: "estimated_time ''easy'' = ''1-3 hours'' \<and>
     estimated_time ''medium'' = ''3-8 hours'' \<and> estimated_time ''hard'' = ''1-3 days''"
    by (simp add: estimated_time_def)
  have defaults:
    "ia_difficulty (issueAnalysis (templateGuide rt rd (Some (i\<lparr> difficulty := Some ''hard'' \<rparr>))))
       = ''hard'' \<and>
     ia_difficulty (issueAnalysis (templateGuide rt rd (Some (i\<lparr> difficulty := None \<rparr>))))
       = ''medium'' \<and>
     ia_difficulty (issueAnalysis (templateGuide rt rd None)) = ''medium''"
    by (simp add: templateGuide_def or_default_def Let_def)
  have prints: "js_to_string rt (JStr n) = n \<and>
     issueNumber_text rt (Some (i\<lparr> number := Some 42 \<rparr>)) = ''42''"
    by (simp add: js_to_string_def issueNumber_text_def number_text_def MAX_SAFE_INTEGER_def
          show_int_def show_nat.simps)
  have len: "length (gettingStarted (templateGuide rt rd issue)) = 10" for rd issue
    unfolding general by simp
  note facts = gen scenario len step sub analysis [THEN conjunct1] analysis [THEN conjunct2]
    general prints [THEN conjunct1] prints [THEN conjunct2]
    difficulty_general [THEN conjunct1] difficulty_general [THEN conjunct2]
    times [THEN conjunct1] times [THEN conjunct2, THEN conjunct1]
    times [THEN conjunct2, THEN conjunct2]
    defaults [THEN conjunct1] defaults [THEN conjunct2, THEN conjunct1]
    defaults [THEN conjunct2, THEN conjunct2]
  show ?thesis
    by (intro conjI) (rule facts)+
qed

section \<open>Skill management\<close>

lemma cast_newSkill:
  assumes "cast_skill rt (newSkill s) = Some t"
  shows "sk_name t = name_of s"
    and "\<not> truthy (in_confidence s) \<Longrightarrow> confidence t = 80"
    and "in_confidence s = JNum c \<Longrightarrow> c \<noteq> 0 \<Longrightarrow> confidence t = c"
    and "\<not> truthy (in_category s) \<Longrightarrow> category t = ''Manual''"
    and "in_category s = JStr g \<Longrightarrow> g \<noteq> [] \<Longrightarrow> category t = g"
  using assms
  by (auto simp: cast_skill_def newSkill_def js_or_def truthy_def castNumber_def castString_def
           split: cast.splits if_splits)

lemma addSkills_success:
  assumes "addSkills rt save_ok user (Some batch) = (res, user')" and "status res = 200"
  shows "\<not> list_ex (\<lambda>s. case in_name s of JStr n \<Rightarrow> False | _ \<Rightarrow> True) batch"
    and "\<not> list_ex (\<lambda>p. p = None)
            (map (cast_skill rt)
               (map newSkill
                  (filter (\<lambda>s. toLowerCase rt (name_of s)
                                 \<notin> set (map (\<lambda>t. toLowerCase rt (sk_name t)) (doc_skills user)))
                     batch)))"
    and "doc_skills user' = doc_skills user @
            map the (map (cast_skill rt)
               (map newSkill
                  (filter (\<lambda>s. toLowerCase rt (name_of s)
                                 \<notin> set (map (\<lambda>t. toLowerCase rt (sk_name t)) (doc_skills user)))
                     batch)))"
    and "Option.bind (data res) sd_added =
            Some (map newSkill
                  (filter (\<lambda>s. toLowerCase rt (name_of s)
                                 \<notin> set (map (\<lambda>t. toLowerCase rt (sk_name t)) (doc_skills user)))
                     batch))"
  using assms by (auto simp: addSkills_def Let_def split: if_splits)

text \<open>
  Against the names already stored the filter of the add handler is sound: a batch whose
  own names are distinct up to case leaves the user's names unique.
\<close>

lemma addSkills_unique_for_distinct_batch:
  assumes "unique_names rt (doc_skills user)"
    and "distinct (map (\<lambda>s. toLowerCase rt (name_of s)) batch)"
  shows "unique_names rt (doc_skills (snd (addSkills rt save_ok user (Some batch))))"
proof (cases "status (fst (addSkills rt save_ok user (Some batch))) = 200")
  case False
  then have "snd (addSkills rt save_ok user (Some batch)) = user"
    by (auto simp: addSkills_def Let_def split: if_splits)
  with assms(1) show ?thesis by simp
next
  case True
  let ?key = "\<lambda>s. toLowerCase rt (name_of s)"
  let ?existing = "set (map (\<lambda>t. toLowerCase rt (sk_name t)) (doc_skills user))"
  let ?fresh = "filter (\<lambda>s. ?key s \<notin> ?existing) batch"
  have pair: "addSkills rt save_ok user (Some batch) =
                (fst (addSkills rt save_ok user (Some batch)),
                 snd (addSkills rt save_ok user (Some batch)))"
    by simp
  note ok = addSkills_success [OF pair True]
  have each: "toLowerCase rt (sk_name (the (cast_skill rt (newSkill s)))) = ?key s"
    if "s \<in> set ?fresh" for s
  proof -
    from that ok(2) have "cast_skill rt (newSkill s) \<noteq> None"
      by (force simp: list_ex_iff)
    then obtain t where t: "cast_skill rt (newSkill s) = Some t" by auto
    with cast_newSkill(1) [OF t] show ?thesis by simp
  qed
  have keys: "map (\<lambda>t. toLowerCase rt (sk_name t))
                (map the (map (cast_skill rt) (map newSkill ?fresh))) = map ?key ?fresh"
    using each by (simp add: comp_def cong: map_cong)
  have "distinct (map ?key ?fresh)"
    using assms(2) by (rule distinct_map_filter)
  moreover have "set (map ?key ?fresh) \<inter> ?existing = {}"
    by auto
  ultimately show ?thesis
    using assms(1) unfolding unique_names_def ok(3) map_append keys
    by (simp add: Int_commute)
qed

text \<open>
  C6: adding skills should keep names unique up to case. The handler compares each
  element of the batch with the names stored before the request, never with the other
  elements of the batch: a user without skills who posts \<open>React\<close> and \<open>react\<close> in one
  request ends up with both.
\<close>

theorem addSkills_batch_duplicates:
  "unique_names rt (doc_skills doc_empty) \<and>
   status (fst (addSkills rt True doc_empty (Some [named ''React'', named ''react'']))) = 200 \<and>
   doc_skills (snd (addSkills rt True doc_empty (Some [named ''React'', named ''react'']))) =
     [\<lparr> sk_name = ''React'', confidence = 80, category = ''Manual'' \<rparr>,
      \<lparr> sk_name = ''react'', confidence = 80, category = ''Manual'' \<rparr>] \<and>
   \<not> unique_names rt (doc_skills (snd (addSkills rt True doc_empty
                                          (Some [named ''React'', named ''react'']))))"
  by (simp add: addSkills_def doc_empty_def named_def unique_names_def newSkill_def name_of_def
        js_or_def truthy_def cast_skill_def castNumber_def castString_def toLowerCase_def
        is_ascii_def ascii_lower_def toLowerCase_char_def Let_def)

lemma lower_not_slash:
  "toLowerCase_char x = CHR ''a'' \<or> toLowerCase_char x = CHR ''l'' \<Longrightarrow> x \<noteq> CHR ''/''"
  by (auto simp: toLowerCase_char_def)

lemma all_matches_param:
  assumes "match_path [Lit ''all''] p \<noteq> None"
  shows "match_path [Param n] p \<noteq> None"
proof -
  have lit: "ascii_lower ''all'' = ''all''"
    by (simp add: ascii_lower_def toLowerCase_char_def)
  from assms have "p \<noteq> []" by (auto simp: match_path_def)
  then obtain c0 r where p0: "p = c0 # r" by (cases p) auto
  from assms have c0: "c0 = CHR ''/''" and len: "3 \<le> length r"
    and low: "ascii_lower (take 3 r) = ascii_lower ''all''"
    and rest: "drop 3 r = [] \<or> drop 3 r = ''/''"
    by (auto simp: match_path_def p0 numeral_3_eq_3 split: if_splits)
  from p0 c0 have p: "p = CHR ''/'' # r" by simp
  from len obtain a b c rest' where r: "r = a # b # c # rest'"
    by (auto simp: numeral_3_eq_3 Suc_le_length_iff)
  from low have "toLowerCase_char a = CHR ''a''" and "toLowerCase_char b = CHR ''l''"
    and "toLowerCase_char c = CHR ''l''"
    unfolding lit by (simp_all add: r ascii_lower_def)
  then have "a \<noteq> CHR ''/''" and "b \<noteq> CHR ''/''" and "c \<noteq> CHR ''/''"
    using lower_not_slash by blast+
  moreover from rest have "rest' = [] \<or> rest' = ''/''" by (simp add: r)
  ultimately show ?thesis
    by (auto simp: match_path_def p r)
qed

lemma dispatch_never_clearAll: "dispatch rt skills_routes DELETE p \<noteq> Route ClearAll params"
proof (cases "match_path [Param ''skillName''] p")
  case None
  with all_matches_param [of p "''skillName''"] have "match_path [Lit ''all''] p = None"
    by blast
  with None show ?thesis
    by (simp add: skills_routes_def split: option.splits sum.splits)
next
  case (Some raw)
  then show ?thesis
    by (simp add: skills_routes_def split: option.splits sum.splits)
qed

text \<open>
  C7: a DELETE request to \<open>/all\<close> should clear the skills and the resume. The route
  \<open>/:skillName\<close> is registered before \<open>/all\<close> and matches the path with
  \<open>skillName = all\<close>, so the request runs the single-skill handler: for a user with the
  skill \<open>Python\<close> and a resume it answers 404 \<open>Skill not found\<close> and the document keeps
  its skills and its resume; for a user who also has a skill named \<open>All\<close> it removes
  that skill alone. No DELETE path reaches the clear-all handler.
\<close>

theorem delete_all_shadowed:
  "dispatch rt skills_routes DELETE ''/all'' = Route DeleteSkill [(''skillName'', ''all'')] \<and>
   status (fst (skills_delete rt True doc_python ''/all'')) = 404 \<and>
   message (fst (skills_delete rt True doc_python ''/all'')) = Some ''Skill not found'' \<and>
   snd (skills_delete rt True doc_python ''/all'') = doc_python \<and>
   doc_skills doc_python \<noteq> [] \<and> doc_resume doc_python \<noteq> None \<and>
   status (fst (skills_delete rt True doc_with_all ''/all'')) = 200 \<and>
   snd (skills_delete rt True doc_with_all ''/all'') = doc_python \<and>
   (\<forall>p params. dispatch rt skills_routes DELETE p \<noteq> Route ClearAll params)"
proof -
  have route: "dispatch rt skills_routes DELETE ''/all'' =
     Route DeleteSkill [(''skillName'', ''all'')]"
    by (simp add: skills_routes_def match_path_def decodeURIComponent_def)
  have python: "skills_delete rt True doc_python ''/all'' =
     (\<lparr> status = 404, success = False, message = Some ''Skill not found'',
        data = None, isTemplate = None \<rparr>, doc_python)"
    by (simp add: skills_delete_def route deleteSkill_def doc_python_def mk_skill_def
          template_str_def toLowerCase_def is_ascii_def ascii_lower_def toLowerCase_char_def
          Let_def)
  have with_all: "status (fst (skills_delete rt True doc_with_all ''/all'')) = 200 \<and>
     snd (skills_delete rt True doc_with_all ''/all'') = doc_python"
    by (simp add: skills_delete_def route deleteSkill_def doc_python_def doc_with_all_def
          mk_skill_def template_str_def toLowerCase_def is_ascii_def ascii_lower_def
          toLowerCase_char_def Let_def)
  have present: "doc_skills doc_python \<noteq> [] \<and> doc_resume doc_python \<noteq> None"
    by (simp add: doc_python_def)
  from route python with_all present dispatch_never_clearAll show ?thesis by simp
qed

text \<open>
  C10, as stated, ends with: a caller cannot add a skill with confidence 0. The default
  replaces falsy values only, and the string \<open>"0"\<close> is truthy: it passes \<open>|| 80\<close>, and the
  schema, which declares \<open>confidence\<close> a number, stores it as 0.
\<close>

theorem addSkills_zero_string_counterexample:
  "in_confidence zero_string_go = JStr ''0'' \<and>
   status (fst (addSkills plain_runtime True doc_empty (Some [zero_string_go]))) = 200 \<and>
   doc_skills (snd (addSkills plain_runtime True doc_empty (Some [zero_string_go]))) =
     [\<lparr> sk_name = ''Go'', confidence = 0, category = ''Manual'' \<rparr>]"
  by (simp add: addSkills_def doc_empty_def zero_string_go_def newSkill_def name_of_def
        js_or_def truthy_def cast_skill_def castNumber_def castString_def Number_of_string_def
        digits_value_def hex_value_def toLowerCase_def is_ascii_def ascii_lower_def
        toLowerCase_char_def Let_def)

text \<open>
  C10, amended: when a request to add skills succeeds, every element of the batch whose
  name is not yet among the user's names (up to case) is stored under its name, with
  confidence 80 if its confidence is any falsy value (0, \<open>null\<close>, missing, \<open>false\<close>, the
  empty string) and with category \<open>Manual\<close> if its category is any falsy value (the empty
  string among them); a non-zero number and a non-empty string are stored as given. So
  the defaults apply to every falsy value, not only to absent fields, and no falsy value
  and no number stores confidence 0; only a truthy value that the schema casts to 0 does.
\<close>

theorem addSkills_defaults:
  assumes "addSkills rt save_ok user (Some batch) = (res, user')" and "status res = 200"
  shows "(\<forall>s \<in> set batch.
            toLowerCase rt (name_of s)
              \<notin> set (map (\<lambda>t. toLowerCase rt (sk_name t)) (doc_skills user)) \<longrightarrow>
            (\<exists>t \<in> set (doc_skills user').
               in_name s = JStr (sk_name t) \<and>
               (\<not> truthy (in_confidence s) \<longrightarrow> confidence t = 80) \<and>
               (\<forall>c. in_confidence s = JNum c \<and> c \<noteq> 0 \<longrightarrow> confidence t = c) \<and>
               (\<not> truthy (in_confidence s) \<or> (\<exists>c. in_confidence s = JNum c)
                  \<longrightarrow> confidence t \<noteq> 0) \<and>
               (\<not> truthy (in_category s) \<longrightarrow> category t = ''Manual'') \<and>
               (\<forall>g. in_category s = JStr g \<and> g \<noteq> [] \<longrightarrow> category t = g))) \<and>
         (\<exists>added. Option.bind (data res) sd_added = Some added \<and>
                  length (doc_skills user') = length (doc_skills user) + length added \<and>
                  (\<forall>a \<in> set added. truthy (ns_confidence a) \<and> truthy (ns_category a))) \<and>
         \<not> truthy JUndefined \<and> \<not> truthy JNull \<and> \<not> truthy (JBool False) \<and>
         \<not> truthy (JNum 0) \<and> \<not> truthy (JStr [])"
proof -
  let ?existing = "set (map (\<lambda>t. toLowerCase rt (sk_name t)) (doc_skills user))"
  let ?fresh = "filter (\<lambda>s. toLowerCase rt (name_of s) \<notin> ?existing) batch"
  let ?new = "map newSkill ?fresh"
  note ok = addSkills_success [OF assms]
  have first: "\<exists>t \<in> set (doc_skills user').
               in_name s = JStr (sk_name t) \<and>
               (\<not> truthy (in_confidence s) \<longrightarrow> confidence t = 80) \<and>
               (\<forall>c. in_confidence s = JNum c \<and> c \<noteq> 0 \<longrightarrow> confidence t = c) \<and>
               (\<not> truthy (in_confidence s) \<or> (\<exists>c. in_confidence s = JNum c)
                  \<longrightarrow> confidence t \<noteq> 0) \<and>
               (\<not> truthy (in_category s) \<longrightarrow> category t = ''Manual'') \<and>
               (\<forall>g. in_category s = JStr g \<and> g \<noteq> [] \<longrightarrow> category t = g)"
    if s: "s \<in> set batch" and fresh: "toLowerCase rt (name_of s) \<notin> ?existing" for s
  proof -
    from s fresh have mem: "s \<in> set ?fresh" by simp
    with ok(2) have "cast_skill rt (newSkill s) \<noteq> None"
      by (force simp: list_ex_iff)
    then obtain t where t: "cast_skill rt (newSkill s) = Some t" by auto
    have "set (map the (map (cast_skill rt) (map newSkill ?fresh))) =
            (\<lambda>x. the (cast_skill rt (newSkill x))) ` set ?fresh"
      by (simp add: image_image)
    with mem have "the (cast_skill rt (newSkill s))
                     \<in> set (map the (map (cast_skill rt) (map newSkill ?fresh)))"
      by blast
    with t have stored: "t \<in> set (doc_skills user')"
      unfolding ok(3) by simp
    from ok(1) s obtain n where n: "in_name s = JStr n"
      by (cases "in_name s") (auto simp: list_ex_iff)
    then have "name_of s = n" by (simp add: name_of_def)
    with cast_newSkill(1) [OF t] n have name: "in_name s = JStr (sk_name t)" by simp
    have zero: "confidence t \<noteq> 0"
      if "\<not> truthy (in_confidence s) \<or> (\<exists>c. in_confidence s = JNum c)"
    proof (cases "truthy (in_confidence s)")
      case False
      then show ?thesis using cast_newSkill(2) [OF t] by simp
    next
      case True
      with that obtain c where c: "in_confidence s = JNum c" by blast
      with True have "c \<noteq> 0" by (simp add: truthy_def)
      with cast_newSkill(3) [OF t c] show ?thesis by simp
    qed
    from stored name zero cast_newSkill(2-5) [OF t] show ?thesis by blast
  qed
  have added: "\<forall>a \<in> set ?new. truthy (ns_confidence a) \<and> truthy (ns_category a)"
    by (auto simp: newSkill_def js_or_def truthy_def)
  have len: "length (doc_skills user') = length (doc_skills user) + length ?new"
    unfolding ok(3) by simp
  have falsy: "\<not> truthy JUndefined \<and> \<not> truthy JNull \<and> \<not> truthy (JBool False) \<and>
         \<not> truthy (JNum 0) \<and> \<not> truthy (JStr [])"
    by (simp add: truthy_def)
  from first ok(4) len added falsy show ?thesis by blast
qed

theorem addSkills_defaults_witness:
  "status (fst (addSkills plain_runtime True doc_python
                  (Some [zero_go, named ''Rust'', named ''PYTHON'']))) = 200 \<and>
   doc_skills (snd (addSkills plain_runtime True doc_python
                      (Some [zero_go, named ''Rust'', named ''PYTHON'']))) =
     [ mk_skill ''Python'' 90,
       \<lparr> sk_name = ''Go'', confidence = 80, category = ''Manual'' \<rparr>,
       \<lparr> sk_name = ''Rust'', confidence = 80, category = ''Manual'' \<rparr> ]"
  using addSkills_defaults [of plain_runtime True doc_python
          "[zero_go, named ''Rust'', named ''PYTHON'']"
          "fst (addSkills plain_runtime True doc_python
                  (Some [zero_go, named ''Rust'', named ''PYTHON'']))"
          "snd (addSkills plain_runtime True doc_python
                  (Some [zero_go, named ''Rust'', named ''PYTHON'']))"]
  by (simp add: addSkills_def doc_python_def zero_go_def named_def newSkill_def name_of_def
        js_or_def truthy_def cast_skill_def castNumber_def castString_def mk_skill_def
        toLowerCase_def is_ascii_def ascii_lower_def toLowerCase_char_def Let_def)

end
